theory Spec2Isabelle
  imports Complex_Main "HOL-Library.Log_Nat"
begin

section \<open>Python values used by the workbook adapter\<close>

text \<open>
  Strings are lists of characters. The model is faithful for ASCII text: \<open>str.strip\<close>
  removes the ASCII whitespace characters of Python (\<open>\t \n \v \f \r\<close>, the four
  separators \<open>0x1C..0x1F\<close> and the blank), \<open>str.upper\<close> and \<open>str.lower\<close> map the 26
  ASCII letters and leave every other character alone.
\<close>

definition is_space :: "char \<Rightarrow> bool" where
  "is_space c =
    (c \<in> set [CHR 0x09, CHR 0x0A, CHR 0x0B, CHR 0x0C, CHR 0x0D,
                CHR 0x1C, CHR 0x1D, CHR 0x1E, CHR 0x1F, CHR '' ''])"

definition strip :: "string \<Rightarrow> string" where
  "strip s = rev (dropWhile is_space (rev (dropWhile is_space s)))"

definition lower_letters :: string where
  "lower_letters = ''abcdefghijklmnopqrstuvwxyz''"

definition upper_letters :: string where
  "upper_letters = ''ABCDEFGHIJKLMNOPQRSTUVWXYZ''"

definition upper_char :: "char \<Rightarrow> char" where
  "upper_char c = (case map_of (zip lower_letters upper_letters) c of None \<Rightarrow> c | Some u \<Rightarrow> u)"

definition lower_char :: "char \<Rightarrow> char" where
  "lower_char c = (case map_of (zip upper_letters lower_letters) c of None \<Rightarrow> c | Some u \<Rightarrow> u)"

definition upper :: "string \<Rightarrow> string" where
  "upper s = map upper_char s"

definition lower :: "string \<Rightarrow> string" where
  "lower s = map lower_char s"

text \<open>
  Every exception the modelled code can raise is a value. \<open>ValidationError\<close> carries the
  message of the source (interpolated parts are left as the placeholders of the f-string).
\<close>

datatype error =
    ValidationError string
  | ValueError
  | TypeError
  | OverflowError
  | KeyError

subsection \<open>Integers and floats\<close>

definition is_digit :: "char \<Rightarrow> bool" where
  "is_digit c = (c \<in> set ''0123456789'')"

definition digit_val :: "char \<Rightarrow> nat" where
  "digit_val c = (case map_of (zip ''0123456789'' [0, 1, 2, 3, 4, 5, 6, 7, 8, 9]) c of None \<Rightarrow> 0 | Some n \<Rightarrow> n)"

definition digits_val :: "string \<Rightarrow> nat" where
  "digits_val s = foldl (\<lambda>a c. 10 * a + digit_val c) 0 s"

definition digit_char :: "nat \<Rightarrow> char" where
  "digit_char n = ''0123456789'' ! n"

text \<open>\<open>str(n)\<close> for an integer: decimal digits, with a minus sign for a negative one.\<close>

fun show_nat :: "nat \<Rightarrow> string" where
  "show_nat n = (if n < 10 then [digit_char n] else show_nat (n div 10) @ [digit_char (n mod 10)])"

definition show_int :: "int \<Rightarrow> string" where
  "show_int i = (if i < 0 then CHR ''-'' # show_nat (nat (- i)) else show_nat (nat i))"

text \<open>
  The format specification \<open>{i:0wd}\<close> of an f-string: the decimal digits padded with zeros
  to the width \<open>w\<close>, the sign (if any) first.
\<close>

definition format_0d :: "nat \<Rightarrow> int \<Rightarrow> string" where
  "format_0d w i =
    (if i < 0 then CHR ''-'' # replicate (w - 1 - length (show_nat (nat (- i)))) CHR ''0'' @ show_nat (nat (- i))
     else replicate (w - length (show_nat (nat i))) CHR ''0'' @ show_nat (nat i))"

text \<open>
  A Python float is an IEEE binary64 value: a finite value (kept as the rational it denotes;
  the sign of zero is not kept, \<open>-0.0 == 0.0\<close> in Python), an infinity or a NaN.
\<close>

datatype pyfloat = Fin rat | PInf | NInf | NaN

definition pow2 :: "int \<Rightarrow> rat" where
  "pow2 e = (if 0 \<le> e then 2 ^ nat e else 1 / 2 ^ nat (- e))"

definition pow10 :: "int \<Rightarrow> rat" where
  "pow10 e = (if 0 \<le> e then 10 ^ nat e else 1 / 10 ^ nat (- e))"

definition round_half_even :: "rat \<Rightarrow> int" where
  "round_half_even q =
    (let f = \<lfloor>q\<rfloor>; r = q - of_int f in
     if r < 1 / 2 then f else if 1 / 2 < r then f + 1 else if even f then f else f + 1)"

text \<open>The integer \<open>e\<close> with \<open>2 ^ e \<le> q < 2 ^ (e + 1)\<close>, for a positive rational.\<close>

definition ilog2 :: "rat \<Rightarrow> int" where
  "ilog2 q =
    (let (a, b) = quotient_of q; d = bitlen a - bitlen b in if pow2 d \<le> q then d else d - 1)"

text \<open>
  Rounding of a rational to the nearest binary64 value, ties to even: 53 significant bits,
  least exponent \<open>-1074\<close>, and an infinity from \<open>2 ^ 1024\<close> on (the rounded value
  \<open>m * 2 ^ ex\<close>, with \<open>m \<le> 2 ^ 53\<close>, reaches \<open>2 ^ 1024\<close> exactly when \<open>ex > 971\<close> or
  \<open>ex = 971\<close> and \<open>m = 2 ^ 53\<close>). This is what \<open>float(s)\<close> does with the decimal value
  of a literal and \<open>float(i)\<close> with an integer.
\<close>

definition round64 :: "rat \<Rightarrow> pyfloat" where
  "round64 q =
    (if q = 0 then Fin 0
     else
       let a = \<bar>q\<bar>;
           ex = max (ilog2 a - 52) (- 1074);
           m = round_half_even (a / pow2 ex)
       in if 971 < ex \<or> (ex = 971 \<and> m = 2 ^ 53) then (if q < 0 then NInf else PInf)
          else Fin (if q < 0 then - (of_int m * pow2 ex) else of_int m * pow2 ex))"

text \<open>
  The grammar of numeric literals shared by \<open>int(s)\<close> and \<open>float(s)\<close>: a \<open>digitpart\<close> is a
  non-empty run of digits in which single underscores may separate digits.
\<close>

fun digitpart_rest :: "string \<Rightarrow> bool" where
  "digitpart_rest [] = True"
| "digitpart_rest (c # cs) =
    (if is_digit c then digitpart_rest cs
     else c = CHR ''_'' \<and> (case cs of [] \<Rightarrow> False | d # ds \<Rightarrow> is_digit d \<and> digitpart_rest ds))"

definition digitpart :: "string \<Rightarrow> bool" where
  "digitpart s = (case s of [] \<Rightarrow> False | c # cs \<Rightarrow> is_digit c \<and> digitpart_rest cs)"

definition split_sign :: "string \<Rightarrow> bool \<times> string" where
  "split_sign s =
    (case s of
       [] \<Rightarrow> (False, [])
     | c # cs \<Rightarrow> if c = CHR ''-'' then (True, cs) else if c = CHR ''+'' then (False, cs) else (False, s))"

text \<open>\<open>int(s)\<close> for a string: \<open>None\<close> stands for the \<open>ValueError\<close>.\<close>

definition py_int_of_str :: "string \<Rightarrow> int option" where
  "py_int_of_str s =
    (let (neg, ds) = split_sign (strip s) in
     if digitpart ds
     then Some (if neg then - int (digits_val (filter is_digit ds)) else int (digits_val (filter is_digit ds)))
     else None)"

definition split_at :: "(char \<Rightarrow> bool) \<Rightarrow> string \<Rightarrow> string \<times> string option" where
  "split_at p s =
    (takeWhile (\<lambda>c. \<not> p c) s,
     case dropWhile (\<lambda>c. \<not> p c) s of [] \<Rightarrow> None | _ # r \<Rightarrow> Some r)"

text \<open>
  \<open>floatnumber ::= ([digitpart] "." digitpart | digitpart ["."]) [("e" | "E") ["+" | "-"] digitpart]\<close>,
  with its exact decimal value.
\<close>

definition float_exponent :: "string option \<Rightarrow> int option" where
  "float_exponent ex =
    (case ex of
       None \<Rightarrow> Some 0
     | Some e \<Rightarrow>
         let (neg, ds) = split_sign e in
         if digitpart ds
         then Some (if neg then - int (digits_val (filter is_digit ds)) else int (digits_val (filter is_digit ds)))
         else None)"

definition float_number :: "string \<Rightarrow> rat option" where
  "float_number s =
    (let (mant, ex) = split_at (\<lambda>c. c = CHR ''e'' \<or> c = CHR ''E'') s;
         (ip, fp) = split_at (\<lambda>c. c = CHR ''.'') mant;
         ok = (case fp of
                 None \<Rightarrow> digitpart ip
               | Some f \<Rightarrow> (ip = [] \<and> digitpart f) \<or> (digitpart ip \<and> (f = [] \<or> digitpart f)))
     in if \<not> ok then None
        else case float_exponent ex of
               None \<Rightarrow> None
             | Some e \<Rightarrow>
                 let fd = filter is_digit (case fp of None \<Rightarrow> [] | Some f \<Rightarrow> f)
                 in Some (of_nat (digits_val (filter is_digit ip @ fd)) * pow10 (e - int (length fd))))"

text \<open>
  \<open>float(s)\<close> for a string: surrounding whitespace is dropped, then an optional sign and
  \<open>inf\<close>, \<open>infinity\<close>, \<open>nan\<close> (in any case) or a \<open>floatnumber\<close>. \<open>None\<close> stands for the
  \<open>ValueError\<close>.
\<close>

definition py_float :: "string \<Rightarrow> pyfloat option" where
  "py_float s =
    (let (neg, body) = split_sign (strip s); lb = lower body in
     if lb = ''inf'' \<or> lb = ''infinity'' then Some (if neg then NInf else PInf)
     else if lb = ''nan'' then Some NaN
     else case float_number body of
            None \<Rightarrow> None
          | Some q \<Rightarrow> Some (round64 (if neg then - q else q)))"

text \<open>\<open>int(x)\<close> for a float truncates towards zero; it raises on an infinity and on a NaN.\<close>

definition py_int_of_float :: "pyfloat \<Rightarrow> error + int" where
  "py_int_of_float x =
    (case x of
       Fin q \<Rightarrow> Inr (if 0 \<le> q then \<lfloor>q\<rfloor> else - \<lfloor>- q\<rfloor>)
     | PInf \<Rightarrow> Inl OverflowError
     | NInf \<Rightarrow> Inl OverflowError
     | NaN \<Rightarrow> Inl ValueError)"

text \<open>Comparison \<open>x < 0\<close> and addition of floats (a NaN compares false with everything).\<close>

definition float_neg :: "pyfloat \<Rightarrow> bool" where
  "float_neg x = (case x of Fin q \<Rightarrow> q < 0 | NInf \<Rightarrow> True | _ \<Rightarrow> False)"

definition float_add :: "pyfloat \<Rightarrow> pyfloat \<Rightarrow> pyfloat" where
  "float_add x y =
    (case (x, y) of
       (Fin a, Fin b) \<Rightarrow> round64 (a + b)
     | (NaN, _) \<Rightarrow> NaN
     | (_, NaN) \<Rightarrow> NaN
     | (PInf, NInf) \<Rightarrow> NaN
     | (NInf, PInf) \<Rightarrow> NaN
     | (PInf, _) \<Rightarrow> PInf
     | (_, PInf) \<Rightarrow> PInf
     | (NInf, _) \<Rightarrow> NInf
     | (_, NInf) \<Rightarrow> NInf)"

subsection \<open>Cells\<close>

text \<open>
  The value of a worksheet cell: empty, a string, an integer, a float or a boolean (date
  cells of openpyxl are not modelled). A worksheet maps (row, column) to the cell's value.
\<close>

datatype cell = CNone | CStr string | CInt int | CFloat pyfloat | CBool bool

type_synonym worksheet = "int \<times> int \<Rightarrow> cell"

text \<open>
  What the program takes from its runtime and cannot compute from its own text:
  \<open>float_repr\<close> is \<open>str(x)\<close> for a float, \<open>saved_size\<close> the size in bytes of the file that
  openpyxl writes for a workbook, \<open>now_stamp\<close> the clock reading
  \<open>datetime.now().strftime("%Y%m%d_%H%M%S")\<close>.
\<close>

record runtime =
  float_repr :: "pyfloat \<Rightarrow> string"
  saved_size :: "worksheet \<Rightarrow> nat"
  now_stamp :: string

definition py_str :: "runtime \<Rightarrow> cell \<Rightarrow> string" where
  "py_str rt v =
    (case v of
       CNone \<Rightarrow> ''None''
     | CStr s \<Rightarrow> s
     | CInt i \<Rightarrow> show_int i
     | CFloat x \<Rightarrow> float_repr rt x
     | CBool b \<Rightarrow> if b then ''True'' else ''False'')"

text \<open>\<open>float(v)\<close> for a cell value.\<close>

definition float_of_str :: "string \<Rightarrow> error + pyfloat" where
  "float_of_str s = (case py_float s of None \<Rightarrow> Inl ValueError | Some x \<Rightarrow> Inr x)"

definition float_of_int :: "int \<Rightarrow> error + pyfloat" where
  "float_of_int i = (case round64 (of_int i) of Fin q \<Rightarrow> Inr (Fin q) | _ \<Rightarrow> Inl OverflowError)"

definition py_float_of :: "cell \<Rightarrow> error + pyfloat" where
  "py_float_of v =
    (case v of
       CNone \<Rightarrow> Inl TypeError
     | CStr s \<Rightarrow> float_of_str s
     | CInt i \<Rightarrow> float_of_int i
     | CFloat x \<Rightarrow> Inr x
     | CBool b \<Rightarrow> Inr (Fin (if b then 1 else 0)))"

text \<open>Sequencing of computations that may raise, and \<open>try ... except ValueError\<close>.\<close>

definition ebind :: "error + 'a \<Rightarrow> ('a \<Rightarrow> error + 'b) \<Rightarrow> error + 'b" where
  "ebind m f = (case m of Inl e \<Rightarrow> Inl e | Inr x \<Rightarrow> f x)"

definition except_ValueError :: "error + 'a \<Rightarrow> 'a \<Rightarrow> error + 'a" where
  "except_ValueError m d = (case m of Inl ValueError \<Rightarrow> Inr d | _ \<Rightarrow> m)"

subsection \<open>utils/general_helper.py\<close>

definition is_leap_year :: "int \<Rightarrow> bool" where
  "is_leap_year year = ((year mod 4 = 0 \<and> year mod 100 \<noteq> 0) \<or> year mod 400 = 0)"

definition month_days :: "(string \<times> int) list" where
  "month_days =
    [(''january'', 31), (''february'', 28), (''march'', 31), (''april'', 30),
     (''may'', 31), (''june'', 30), (''july'', 31), (''august'', 31),
     (''september'', 30), (''october'', 31), (''november'', 30), (''december'', 31)]"

definition get_days_in_month :: "string \<Rightarrow> int \<Rightarrow> error + int" where
  "get_days_in_month month year =
    (let m = lower (strip month) in
     case map_of month_days m of
       None \<Rightarrow> Inl ValueError
     | Some n \<Rightarrow> if m = ''february'' \<and> is_leap_year year then Inr 29 else Inr n)"

subsection \<open>Dates\<close>

text \<open>
  \<open>datetime.strptime(s, "%Y-%m-%d")\<close>. The format is matched from the left by the regular
  expression \<open>(\d\d\d\d)-(1[0-2]|0[1-9]|[1-9])-(3[0-1]|[1-2]\d|0[1-9]|[1-9]| [1-9])\<close>,
  alternatives in this order; text left over after the match, a year \<open>0\<close> and a day beyond
  the end of the month are errors. The result is (year, month, day); \<open>None\<close> stands for the
  \<open>ValueError\<close>.
\<close>

definition nz_digit :: "char \<Rightarrow> bool" where
  "nz_digit c = (is_digit c \<and> c \<noteq> CHR ''0'')"

definition strp_month :: "string \<Rightarrow> (int \<times> string) option" where
  "strp_month s =
    (case s of
       [] \<Rightarrow> None
     | a # t \<Rightarrow>
        (case t of
           [] \<Rightarrow> if nz_digit a then Some (int (digit_val a), []) else None
         | b # r \<Rightarrow>
             if a = CHR ''1'' \<and> b \<in> set ''012'' then Some (10 + int (digit_val b), r)
             else if a = CHR ''0'' \<and> nz_digit b then Some (int (digit_val b), r)
             else if nz_digit a then Some (int (digit_val a), t)
             else None))"

definition strp_day :: "string \<Rightarrow> (int \<times> string) option" where
  "strp_day s =
    (case s of
       [] \<Rightarrow> None
     | a # t \<Rightarrow>
        (case t of
           [] \<Rightarrow> if nz_digit a then Some (int (digit_val a), []) else None
         | b # r \<Rightarrow>
             if a = CHR ''3'' \<and> b \<in> set ''01'' then Some (30 + int (digit_val b), r)
             else if a \<in> set ''12'' \<and> is_digit b then Some (10 * int (digit_val a) + int (digit_val b), r)
             else if a = CHR ''0'' \<and> nz_digit b then Some (int (digit_val b), r)
             else if nz_digit a then Some (int (digit_val a), t)
             else if a = CHR '' '' \<and> nz_digit b then Some (int (digit_val b), r)
             else None))"

definition days_of_month :: "int \<Rightarrow> int \<Rightarrow> int" where
  "days_of_month y m =
    (if m = 2 then (if is_leap_year y then 29 else 28)
     else if m \<in> {4, 6, 9, 11} then 30 else 31)"

definition strptime_ymd :: "string \<Rightarrow> (int \<times> int \<times> int) option" where
  "strptime_ymd s =
    (if length s < 5 \<or> \<not> list_all is_digit (take 4 s) \<or> s ! 4 \<noteq> CHR ''-'' then None
     else case strp_month (drop 5 s) of
       None \<Rightarrow> None
     | Some (m, r) \<Rightarrow>
        (case r of
           [] \<Rightarrow> None
         | c # r' \<Rightarrow>
             if c \<noteq> CHR ''-'' then None
             else case strp_day r' of
               None \<Rightarrow> None
             | Some (d, rest) \<Rightarrow>
                 let y = int (digits_val (take 4 s)) in
                 if rest \<noteq> [] then None
                 else if y < 1 \<or> days_of_month y m < d then None
                 else Some (y, m, d)))"

subsection \<open>models/transaction.py\<close>

record transaction =
  tx_date :: string
  tx_day :: string
  tx_category :: string
  tx_amount :: pyfloat
  tx_type :: string
  tx_description :: string

text \<open>The constructor with \<open>__post_init__\<close>: strings are trimmed, category and type uppercased.\<close>

definition Transaction ::
  "string \<Rightarrow> string \<Rightarrow> string \<Rightarrow> pyfloat \<Rightarrow> string \<Rightarrow> string \<Rightarrow> transaction" where
  "Transaction date day category amount type description =
    \<lparr> tx_date = strip date, tx_day = strip day, tx_category = upper (strip category),
      tx_amount = amount, tx_type = upper (strip type), tx_description = strip description \<rparr>"

subsection \<open>utils/validator.py: checks on values\<close>

definition MONTH_KEYS :: "string list" where
  "MONTH_KEYS =
    [''JANUARY'', ''FEBRUARY'', ''MARCH'', ''APRIL'', ''MAY'', ''JUNE'',
     ''JULY'', ''AUGUST'', ''SEPTEMBER'', ''OCTOBER'', ''NOVEMBER'', ''DECEMBER'']"

definition MONTH_TO_NUM :: "(string \<times> int) list" where
  "MONTH_TO_NUM =
    [(''JANUARY'', 1), (''FEBRUARY'', 2), (''MARCH'', 3), (''APRIL'', 4),
     (''MAY'', 5), (''JUNE'', 6), (''JULY'', 7), (''AUGUST'', 8),
     (''SEPTEMBER'', 9), (''OCTOBER'', 10), (''NOVEMBER'', 11), (''DECEMBER'', 12)]"

definition validate_year_value :: "int \<Rightarrow> error + unit" where
  "validate_year_value y =
    (if y < 1900 \<or> y > 2100 then Inl (ValidationError ''Year must be between 1900 and 2100.'')
     else Inr ())"

definition validate_income_value :: "pyfloat \<Rightarrow> error + unit" where
  "validate_income_value a =
    (if float_neg a then Inl (ValidationError ''Income must be non-negative.'') else Inr ())"

definition validate_month_name :: "string \<Rightarrow> error + string" where
  "validate_month_name month_name =
    (if month_name = [] \<or> strip month_name = []
     then Inl (ValidationError ''Month name is required.'')
     else let key = upper (strip month_name) in
       if key \<notin> set MONTH_KEYS
       then Inl (ValidationError ''Unknown month name. Use January-December.'')
       else Inr key)"

definition validate_day_in_month :: "string \<Rightarrow> int \<Rightarrow> int \<Rightarrow> error + unit" where
  "validate_day_in_month month_key year day =
    (case get_days_in_month month_key year of
       Inl _ \<Rightarrow> Inl (ValidationError ''Could not validate the day for the given month/year.'')
     | Inr max_day \<Rightarrow>
         if day < 1 \<or> day > max_day
         then Inl (ValidationError ''Day {d} is not valid for {month_key} {year} (max = {max_day}).'')
         else Inr ())"

definition validate_slot_index :: "int \<Rightarrow> error + unit" where
  "validate_slot_index slot_index =
    (if slot_index \<notin> {0, 1} then Inl (ValidationError ''Slot index must be 0 or 1.'') else Inr ())"

definition validate_transaction_or_none :: "transaction option \<Rightarrow> error + unit" where
  "validate_transaction_or_none tx =
    (case tx of
       None \<Rightarrow> Inr ()
     | Some t \<Rightarrow>
         if float_neg (tx_amount t)
         then Inl (ValidationError ''Transaction amount must be non-negative.'')
         else if upper (strip (tx_type t)) \<notin> {''INCOME'', ''EXPENSE''}
         then Inl (ValidationError ''Transaction type must be INCOME or EXPENSE.'')
         else if strip (tx_category t) = []
         then Inl (ValidationError ''Transaction category cannot be empty.'')
         else if strip (tx_date t) = []
         then Inl (ValidationError ''Transaction date is required (YYYY-MM-DD).'')
         else if strptime_ymd (strip (tx_date t)) = None
         then Inl (ValidationError ''Invalid date format. Expected YYYY-MM-DD.'')
         else Inr ())"

definition validate_date_matches_month :: "string \<Rightarrow> string \<Rightarrow> int \<Rightarrow> error + unit" where
  "validate_date_matches_month month_key date_str year =
    (case strptime_ymd date_str of
       None \<Rightarrow> Inl (ValidationError ''Invalid transaction date. Expected YYYY-MM-DD.'')
     | Some (y, m, d) \<Rightarrow>
        (case map_of MONTH_TO_NUM (upper (strip month_key)) of
           None \<Rightarrow> Inl (ValidationError ''Unknown month name. Use January-December.'')
         | Some month_num \<Rightarrow>
             if y \<noteq> year \<or> m \<noteq> month_num
             then Inl (ValidationError ''Date {date_str} does not belong to {month_key} {year}.'')
             else Inr ()))"

subsection \<open>file_io/excel_loader.py: grid addressing\<close>

definition MONTH_ANCHOR_ROW :: "(string \<times> int) list" where
  "MONTH_ANCHOR_ROW =
    [(''JANUARY'', 8), (''FEBRUARY'', 72), (''MARCH'', 132), (''APRIL'', 196),
     (''MAY'', 258), (''JUNE'', 322), (''JULY'', 384), (''AUGUST'', 448),
     (''SEPTEMBER'', 512), (''OCTOBER'', 574), (''NOVEMBER'', 638), (''DECEMBER'', 700)]"

definition get_anchor_row :: "string \<Rightarrow> error + int" where
  "get_anchor_row month_key =
    (case map_of MONTH_ANCHOR_ROW month_key of None \<Rightarrow> Inl KeyError | Some r \<Rightarrow> Inr r)"

definition row_for_day :: "int \<Rightarrow> int \<Rightarrow> int \<Rightarrow> error + int" where
  "row_for_day anchor_row day slot_index =
    (if day < 1 then Inl (ValidationError ''day must be >= 1'')
     else if slot_index \<notin> {0, 1} then Inl (ValidationError ''slot_index must be 0 or 1'')
     else Inr (anchor_row + 2 + (day - 1) * 2 + slot_index))"

subsection \<open>file_io/excel_loader.py: the adapter\<close>

text \<open>
  The adapter object: \<open>_wb\<close> is the workbook (given by the cells of its active sheet),
  \<open>_ws\<close> the reference to that sheet (it has no cells of its own: reading and writing
  through it reads and writes the workbook), \<open>_path\<close> the backing path. A cell returns the
  value last stored in it; openpyxl's limits on string cells are not modelled.
\<close>

record loader =
  l_wb :: "worksheet option"
  l_ws :: bool
  l_path :: "string option"

definition ExcelLoader :: loader where
  "ExcelLoader = \<lparr> l_wb = None, l_ws = False, l_path = None \<rparr>"

definition TEMPLATE_MARKER_CELL :: "int \<times> int" where
  "TEMPLATE_MARKER_CELL = (1, 1)"

definition TEMPLATE_MARKER_VALUE :: string where
  "TEMPLATE_MARKER_VALUE = ''MM_TMU''"

definition CURRENT_INCOME_CELL :: "int \<times> int" where
  "CURRENT_INCOME_CELL = (5, 3)"

definition YEAR_CELL :: "int \<times> int" where
  "YEAR_CELL = (6, 2)"

definition COL :: "(string \<times> int) list" where
  "COL = [(''DATE'', 1), (''DAY'', 3), (''CATEGORY'', 4), (''AMOUNT'', 9), (''TYPE'', 10),
          (''DESCRIPTION'', 11)]"

definition COL_DATE :: int where "COL_DATE = 1"
definition COL_DAY :: int where "COL_DAY = 3"
definition COL_CATEGORY :: int where "COL_CATEGORY = 4"
definition COL_AMOUNT :: int where "COL_AMOUNT = 9"
definition COL_TYPE :: int where "COL_TYPE = 10"
definition COL_DESCRIPTION :: int where "COL_DESCRIPTION = 11"

definition VALID_TYPES :: "string set" where
  "VALID_TYPES = {''EXPENSE'', ''INCOME'', ''NONE''}"

definition ensure_open :: "loader \<Rightarrow> error + worksheet" where
  "ensure_open l =
    (case l_wb l of
       None \<Rightarrow> Inl (ValidationError ''Workbook is not open. Call open(file_path) first.'')
     | Some sheet \<Rightarrow>
         if \<not> l_ws l then Inl (ValidationError ''Workbook is not open. Call open(file_path) first.'')
         else Inr sheet)"

definition months_in_order :: "string list" where
  "months_in_order =
    [''JANUARY'', ''FEBRUARY'', ''MARCH'', ''APRIL'', ''MAY'', ''JUNE'',
     ''JULY'', ''AUGUST'', ''SEPTEMBER'', ''OCTOBER'', ''NOVEMBER'', ''DECEMBER'']"

definition month_to_number :: "string \<Rightarrow> error + int" where
  "month_to_number month_key =
    (case map_of MONTH_TO_NUM month_key of None \<Rightarrow> Inl KeyError | Some n \<Rightarrow> Inr n)"

definition date_to_string :: "int \<Rightarrow> string \<Rightarrow> int \<Rightarrow> error + string" where
  "date_to_string year month_key day_number =
    ebind (month_to_number month_key) (\<lambda>month_num.
      Inr (format_0d 4 year @ ''-'' @ format_0d 2 month_num @ ''-'' @ format_0d 2 day_number))"

text \<open>\<open>str.split("-")[-1]\<close>: the text after the last hyphen.\<close>

definition last_part :: "string \<Rightarrow> string" where
  "last_part s = rev (takeWhile (\<lambda>c. c \<noteq> CHR ''-'') (rev s))"

definition extract_day :: "string \<Rightarrow> int" where
  "extract_day date_str = (case py_int_of_str (last_part date_str) of None \<Rightarrow> 0 | Some d \<Rightarrow> d)"

definition safe_cell_str :: "runtime \<Rightarrow> worksheet \<Rightarrow> int \<Rightarrow> int \<Rightarrow> string" where
  "safe_cell_str rt sheet row col =
    (case sheet (row, col) of CNone \<Rightarrow> [] | v \<Rightarrow> py_str rt v)"

definition remove_chars :: "string \<Rightarrow> string" where
  "remove_chars s = filter (\<lambda>c. c \<noteq> CHR ''$'' \<and> c \<noteq> CHR '','') s"

definition to_float :: "runtime \<Rightarrow> cell \<Rightarrow> error + pyfloat" where
  "to_float rt raw =
    (if raw = CNone then Inr (Fin 0)
     else let s = strip (py_str rt raw) in
       if s = [] then Inr (Fin 0)
       else except_ValueError (float_of_str (remove_chars s)) (Fin 0))"

definition to_int :: "runtime \<Rightarrow> cell \<Rightarrow> error + int" where
  "to_int rt raw =
    (if raw = CNone \<or> strip (py_str rt raw) = [] then Inr 0
     else except_ValueError (ebind (float_of_str (py_str rt raw)) py_int_of_float) 0)"

definition verify_template :: "runtime \<Rightarrow> loader \<Rightarrow> error + bool" where
  "verify_template rt l =
    ebind (ensure_open l) (\<lambda>sheet.
      Inr (upper (strip (py_str rt (sheet TEMPLATE_MARKER_CELL))) = TEMPLATE_MARKER_VALUE))"

definition get_year :: "loader \<Rightarrow> error + int" where
  "get_year l =
    ebind (ensure_open l) (\<lambda>sheet. ebind (py_float_of (sheet YEAR_CELL)) py_int_of_float)"

definition set_year :: "loader \<Rightarrow> int \<Rightarrow> error + loader" where
  "set_year l year =
    ebind (validate_year_value year) (\<lambda>_.
    ebind (ensure_open l) (\<lambda>sheet.
      Inr (l\<lparr>l_wb := Some (sheet(YEAR_CELL := CInt year))\<rparr>)))"

definition get_current_income :: "runtime \<Rightarrow> loader \<Rightarrow> error + pyfloat" where
  "get_current_income rt l =
    ebind (ensure_open l) (\<lambda>sheet. to_float rt (sheet CURRENT_INCOME_CELL))"

definition set_current_income :: "loader \<Rightarrow> pyfloat \<Rightarrow> error + loader" where
  "set_current_income l income =
    ebind (validate_income_value income) (\<lambda>_.
    ebind (ensure_open l) (\<lambda>sheet.
      Inr (l\<lparr>l_wb := Some (sheet(CURRENT_INCOME_CELL := CFloat income))\<rparr>)))"

definition read_row_as_transaction ::
  "runtime \<Rightarrow> worksheet \<Rightarrow> string \<Rightarrow> int \<Rightarrow> int \<Rightarrow> int \<Rightarrow> error + transaction option" where
  "read_row_as_transaction rt sheet month_key year day row =
    (let t = upper (strip (safe_cell_str rt sheet row COL_TYPE));
         date_cell = strip (safe_cell_str rt sheet row COL_DATE);
         day_name = strip (safe_cell_str rt sheet row COL_DAY);
         category = strip (safe_cell_str rt sheet row COL_CATEGORY);
         amount_raw = sheet (row, COL_AMOUNT);
         desc = strip (safe_cell_str rt sheet row COL_DESCRIPTION);
         is_all_blank = (t = [] \<and> date_cell = [] \<and> day_name = [] \<and> category = [] \<and> desc = [] \<and>
                         (amount_raw = CNone \<or> strip (py_str rt amount_raw) = []))
     in if t = ''NONE'' \<or> (t = [] \<and> is_all_blank) then Inr None
        else if t \<notin> VALID_TYPES then Inr None
        else
          ebind (if date_cell \<noteq> [] then to_int rt (CStr date_cell) else Inr day) (\<lambda>day_number.
          ebind (date_to_string year month_key day_number) (\<lambda>date_str.
          ebind (to_float rt amount_raw) (\<lambda>amount_val.
            Inr (Some (Transaction date_str day_name category amount_val t desc))))))"

text \<open>The body of the loop of \<open>read_month\<close> for one day, and the loop over the days.\<close>

definition read_day ::
  "runtime \<Rightarrow> worksheet \<Rightarrow> string \<Rightarrow> int \<Rightarrow> int \<Rightarrow> int \<Rightarrow> error + (int \<times> transaction option list)" where
  "read_day rt sheet month_key year anchor d =
    ebind (row_for_day anchor d 0) (\<lambda>row_top.
    ebind (read_row_as_transaction rt sheet month_key year d row_top) (\<lambda>slot0.
    ebind (read_row_as_transaction rt sheet month_key year d (row_top + 1)) (\<lambda>slot1.
      Inr (d, [slot0, slot1]))))"

primrec for_each :: "('a \<Rightarrow> error + 'b) \<Rightarrow> 'a list \<Rightarrow> error + 'b list" where
  "for_each f [] = Inr []"
| "for_each f (x # xs) =
    (case f x of
       Inl e \<Rightarrow> Inl e
     | Inr y \<Rightarrow> (case for_each f xs of Inl e \<Rightarrow> Inl e | Inr ys \<Rightarrow> Inr (y # ys)))"

text \<open>
  \<open>read_month\<close> returns the dictionary \<open>{day -> [slot0, slot1]}\<close> as the list of its items
  in insertion order (days ascending).
\<close>

definition read_month ::
  "runtime \<Rightarrow> loader \<Rightarrow> string \<Rightarrow> error + (int \<times> transaction option list) list" where
  "read_month rt l month_name =
    ebind (ensure_open l) (\<lambda>sheet.
    ebind (validate_month_name month_name) (\<lambda>month_key.
    ebind (get_anchor_row month_key) (\<lambda>anchor.
    ebind (get_year l) (\<lambda>year.
    ebind (get_days_in_month month_key year) (\<lambda>day_count.
      for_each (read_day rt sheet month_key year anchor) [1..day_count])))))"

definition clear_row :: "worksheet \<Rightarrow> int \<Rightarrow> worksheet" where
  "clear_row sheet row = foldl (\<lambda>sh col. sh((row, col) := CNone)) sheet (map snd COL)"

definition write_day_entry ::
  "loader \<Rightarrow> string \<Rightarrow> int \<Rightarrow> int \<Rightarrow> transaction option \<Rightarrow> error + loader" where
  "write_day_entry l month_name day slot_index tx =
    ebind (ensure_open l) (\<lambda>sheet.
    ebind (validate_month_name month_name) (\<lambda>month_key.
    ebind (get_year l) (\<lambda>year.
    ebind (validate_day_in_month month_key year day) (\<lambda>_.
    ebind (validate_slot_index slot_index) (\<lambda>_.
    ebind (validate_transaction_or_none tx) (\<lambda>_.
    ebind (case tx of None \<Rightarrow> Inr ()
           | Some t \<Rightarrow> ebind (get_year l) (\<lambda>y. validate_date_matches_month month_key (tx_date t) y)) (\<lambda>_.
    ebind (get_anchor_row month_key) (\<lambda>anchor.
    ebind (row_for_day anchor day slot_index) (\<lambda>row.
      case tx of
        None \<Rightarrow> Inr (l\<lparr>l_wb := Some ((clear_row sheet row)((row, COL_TYPE) := CStr ''NONE''))\<rparr>)
      | Some t \<Rightarrow>
          Inr (l\<lparr>l_wb := Some (sheet
            ((row, COL_DATE) := CInt (extract_day (tx_date t)),
             (row, COL_DAY) := CStr (tx_day t),
             (row, COL_CATEGORY) := CStr (tx_category t),
             (row, COL_AMOUNT) := CFloat (tx_amount t),
             (row, COL_TYPE) := CStr (upper (tx_type t)),
             (row, COL_DESCRIPTION) := CStr (tx_description t)))\<rparr>))))))))))"

definition read_all ::
  "runtime \<Rightarrow> loader \<Rightarrow> error + (string \<times> (int \<times> transaction option list) list) list" where
  "read_all rt l =
    ebind (ensure_open l) (\<lambda>_.
      for_each (\<lambda>month_key. ebind (read_month rt l month_key) (\<lambda>days. Inr (month_key, days)))
        months_in_order)"

section \<open>Properties\<close>

subsection \<open>Strings\<close>

lemma upper_char_space [simp]: "is_space (upper_char c) = is_space c"
  unfolding is_space_def upper_char_def lower_letters_def upper_letters_def
  by (simp split: option.splits)

lemma dropWhile_space_upper: "dropWhile is_space (upper s) = upper (dropWhile is_space s)"
  by (induction s) (auto simp: upper_def)

lemma strip_upper: "strip (upper s) = upper (strip s)"
  unfolding strip_def
  by (metis dropWhile_space_upper rev_map upper_def)

lemma upper_char_idem [simp]: "upper_char (upper_char c) = upper_char c"
  unfolding upper_char_def lower_letters_def upper_letters_def
  by (simp split: option.splits)

lemma upper_idem [simp]: "upper (upper s) = upper s"
  by (simp add: upper_def)

lemma upper_Nil [simp]: "upper s = [] \<longleftrightarrow> s = []"
  by (simp add: upper_def)

lemma strip_Nil [simp]: "strip [] = []"
  by (simp add: strip_def)

lemma dropWhile_fix: "xs = [] \<or> \<not> P (hd xs) \<Longrightarrow> dropWhile P xs = xs"
  by (cases xs) auto

lemma strip_idem [simp]: "strip (strip s) = strip s"
proof -
  define u where "u = dropWhile is_space s"
  define t where "t = dropWhile is_space (rev u)"
  have hu: "u = [] \<or> \<not> is_space (hd u)"
    unfolding u_def by (metis hd_dropWhile)
  have ht: "t = [] \<or> \<not> is_space (hd t)"
    unfolding t_def by (metis hd_dropWhile)
  have a: "dropWhile is_space (rev t) = rev t"
  proof (cases u)
    case Nil then show ?thesis by (simp add: t_def)
  next
    case (Cons c cs)
    then have nc: "\<not> is_space c" using hu by simp
    then have "t = dropWhile is_space (rev cs) @ [c]" using Cons
      by (simp add: t_def dropWhile_append3)
    then have "rev t = c # rev (dropWhile is_space (rev cs))" by simp
    then show ?thesis using nc by simp
  qed
  have b: "dropWhile is_space t = t" using ht by (rule dropWhile_fix)
  show ?thesis unfolding strip_def
    using a b by (simp add: u_def[symmetric] t_def[symmetric])
qed

subsection \<open>Row addressing\<close>

lemma row_for_day_valid:
  "1 \<le> d \<Longrightarrow> s \<in> {0, 1} \<Longrightarrow> row_for_day a d s = Inr (a + 2 + (d - 1) * 2 + s)"
  by (auto simp: row_for_day_def)

text \<open>
  C2. For a month of the template, a day between 1 and the number of days of the month and a
  slot in \<open>{0, 1}\<close>, the row computed by \<open>row_for_day\<close> from the month's anchor row is
  \<open>anchor + 2 + (day - 1) * 2 + slot\<close>; on such pairs the row is strictly increasing in the
  lexicographic order of \<open>(day, slot)\<close> and two pairs with the same row are the same pair.
\<close>

theorem row_for_day_increasing_injective:
  assumes "get_anchor_row m = Inr a" and "get_days_in_month m y = Inr n"
    and "1 \<le> d" and "d \<le> n" and "s \<in> {0, 1}"
    and "1 \<le> d'" and "d' \<le> n" and "s' \<in> {0, 1}"
  shows "row_for_day a d s = Inr (a + 2 + (d - 1) * 2 + s) \<and>
    (\<exists>r r'. row_for_day a d s = Inr r \<and> row_for_day a d' s' = Inr r' \<and>
       ((d < d' \<or> (d = d' \<and> s < s')) \<longrightarrow> r < r') \<and>
       (r = r' \<longrightarrow> d = d' \<and> s = s'))"
proof -
  have r: "row_for_day a d s = Inr (a + 2 + (d - 1) * 2 + s)"
    using assms(3,5) by (rule row_for_day_valid)
  have r': "row_for_day a d' s' = Inr (a + 2 + (d' - 1) * 2 + s')"
    using assms(6,8) by (rule row_for_day_valid)
  have lt: "(d < d' \<or> (d = d' \<and> s < s')) \<longrightarrow>
      a + 2 + (d - 1) * 2 + s < a + 2 + (d' - 1) * 2 + s'"
    using assms(5,8) by (elim insertE; simp; presburger?)
  have inj: "a + 2 + (d - 1) * 2 + s = a + 2 + (d' - 1) * 2 + s' \<longrightarrow> d = d' \<and> s = s'"
    using assms(5,8) by (elim insertE; simp; presburger?)
  show ?thesis using r r' lt inj by simp
qed

theorem row_for_day_increasing_injective_witness:
  "get_anchor_row ''FEBRUARY'' = Inr 72 \<and> get_days_in_month ''FEBRUARY'' 2024 = Inr 29 \<and>
   row_for_day 72 28 1 = Inr 129 \<and> row_for_day 72 29 0 = Inr 130"
proof -
  have a: "get_anchor_row ''FEBRUARY'' = Inr 72"
    by (simp add: get_anchor_row_def MONTH_ANCHOR_ROW_def)
  have n: "get_days_in_month ''FEBRUARY'' 2024 = Inr 29"
    by code_simp
  have "row_for_day 72 28 1 = Inr (72 + 2 + (28 - 1) * 2 + 1) \<and>
    (\<exists>r r'. row_for_day 72 28 1 = Inr r \<and> row_for_day 72 29 0 = Inr r' \<and>
       (((28::int) < 29 \<or> ((28::int) = 29 \<and> (1::int) < 0)) \<longrightarrow> r < r') \<and>
       (r = r' \<longrightarrow> (28::int) = 29 \<and> (1::int) = 0))"
    by (rule row_for_day_increasing_injective [OF a n]) simp_all
  then show ?thesis using a n by (auto simp: row_for_day_def)
qed

end
